theory Spec2Isabelle
  imports Main
begin

section \<open>The precalculated text measurer of pybadges\<close>

text \<open>
  The development embeds \<^verbatim>\<open>pybadges/precalculated_text_measurer.py\<close>: the class
  \<^verbatim>\<open>PrecalculatedTextMeasurer\<close> with its initializer, \<^verbatim>\<open>text_width\<close>,
  \<^verbatim>\<open>from_json\<close> and \<^verbatim>\<open>default\<close>.

  Conventions.
  \<^item> A Python \<^verbatim>\<open>str\<close> is a sequence of code points. Texts are lists over an arbitrary
    type \<open>'c\<close> of code points, so a character is whatever Python counts as one; the
    examples use \<open>char\<close>.
  \<^item> The numbers of a table are Python ints or floats. \<open>text_width\<close> is defined for an
    arbitrary type \<open>'a\<close> of numbers with \<open>0\<close>, \<open>+\<close> and \<open>-\<close> and no law assumed, so
    what is proved of it without a sort constraint holds for tables of floats as well as
    for tables of ints. The type \<open>int\<close> is Python's \<^verbatim>\<open>int\<close>; the type \<open>pyfloat\<close> below
    is Python's \<^verbatim>\<open>float\<close>, an IEEE 754 double with its rounding. A theorem that
    rearranges sums asks for an additive group: exact arithmetic, as on a table of ints.
  \<^item> A \<^verbatim>\<open>dict\<close> is a map \<open>'k \<rightharpoonup> 'v\<close>.
\<close>

subsection \<open>Python primitives used by the class\<close>

text \<open>\<^verbatim>\<open>m.get(k, d)\<close>: the value stored under \<open>k\<close>, the default \<open>d\<close> when \<open>k\<close> is absent.
  It never raises.\<close>

definition dict_get :: "('k \<rightharpoonup> 'v) \<Rightarrow> 'k \<Rightarrow> 'v \<Rightarrow> 'v" where
  "dict_get m k d = (case m k of None \<Rightarrow> d | Some v \<Rightarrow> v)"

text \<open>\<^verbatim>\<open>text[i:j]\<close> for \<open>0 \<le> i \<le> j\<close>: a slice is cut off at the end of the string and
  never raises.\<close>

definition slice :: "'c list \<Rightarrow> nat \<Rightarrow> nat \<Rightarrow> 'c list" where
  "slice text i j = take (j - i) (drop i text)"

subsection \<open>The class and its initializer\<close>

text \<open>
  \<^verbatim>\<open>__init__\<close> stores its three arguments unchecked, so the record is generic in the
  types of its fields: \<open>'d\<close> for the default width, \<open>'m\<close> for the two mappings.
  \<^verbatim>\<open>text_width\<close> works on an instance whose fields are a number and two dictionaries
  from strings to numbers (the types the initializer is annotated with);
  \<^verbatim>\<open>from_json\<close> builds an instance that holds three decoded JSON values.
\<close>

record ('d, 'm) PrecalculatedTextMeasurer =
  default_character_width :: 'd
  char_to_width :: 'm
  pair_to_kern :: 'm

definition init :: "'d \<Rightarrow> 'm \<Rightarrow> 'm \<Rightarrow> ('d, 'm) PrecalculatedTextMeasurer" where
  "init d c p = \<lparr>default_character_width = d, char_to_width = c, pair_to_kern = p\<rparr>"

type_synonym ('c, 'a) measurer = "('a, 'c list \<rightharpoonup> 'a) PrecalculatedTextMeasurer"

subsection \<open>\<^verbatim>\<open>text_width\<close>\<close>

text \<open>
  \<^verbatim>\<open>
  width = 0
  for index, c in enumerate(text):
      width += self._char_to_width.get(c, self._default_character_width)
      width -= self._pair_to_kern.get(text[index:index + 2], 0)
  return width
  \<close>
  The loop is a fold over \<open>enumerate 0 text\<close>; the character \<open>c\<close> is the one-character
  string \<open>[c]\<close> when it is used as a key.
\<close>

definition text_width :: "('c, 'a) measurer \<Rightarrow> 'c list \<Rightarrow> 'a::{zero,plus,minus}" where
  "text_width self text =
     fold (\<lambda>(index, c) width.
             (width + dict_get (char_to_width self) [c] (default_character_width self))
               - dict_get (pair_to_kern self) (slice text index (index + 2)) 0)
          (enumerate 0 text) 0"

text \<open>The keys that one call passes to \<^verbatim>\<open>pair_to_kern.get\<close>, in the order of the loop:
  the slice \<^verbatim>\<open>text[index:index + 2]\<close> of every iteration.\<close>

definition kern_lookups :: "'c list \<Rightarrow> 'c list list" where
  "kern_lookups text = map (\<lambda>(index, c). slice text index (index + 2)) (enumerate 0 text)"

subsection \<open>Exceptions\<close>

text \<open>
  The exceptions the module can raise, by their Python names. \<^verbatim>\<open>json.load\<close> raises
  \<open>JSONDecodeError\<close> on a stream that is not JSON; reading the stream can also fail
  (\<open>UnicodeDecodeError\<close>, \<open>LZMAError\<close>, \<open>OSError\<close>). A subscript \<^verbatim>\<open>o[k]\<close> raises
  \<open>KeyError k\<close> on a dictionary without the key \<open>k\<close> and \<open>TypeError\<close> on a value
  that is not a dictionary. \<^verbatim>\<open>default\<close> raises \<open>ValueError\<close> with a message.
  The specification calls the first group \<^verbatim>\<open>DataFormatError\<close> and the last
  \<^verbatim>\<open>ResourceMissingError\<close>. Adding an int that is too large for a float to a float
  raises \<open>OverflowError\<close>; reading an attribute that no class of the method resolution
  order has raises \<open>AttributeError\<close>.
\<close>

datatype error =
    JSONDecodeError
  | UnicodeDecodeError
  | LZMAError
  | OSError
  | KeyError string
  | TypeError
  | ValueError string
  | OverflowError
  | AttributeError

subsection \<open>Python numbers\<close>

text \<open>
  \<^verbatim>\<open>n.bit_length()\<close>: the number of binary digits of \<open>\<bar>n\<bar>\<close>.
\<close>

function bit_length :: "int \<Rightarrow> nat" where
  "bit_length n = (if n = 0 then 0 else Suc (bit_length (\<bar>n\<bar> div 2)))"
  by pat_completeness auto
termination
  by (relation "measure (\<lambda>n. nat \<bar>n\<bar>)") auto

declare bit_length.simps [simp del]

text \<open>
  A Python \<^verbatim>\<open>float\<close> is an IEEE 754 binary64 number. Every finite double is an integer
  multiple of the smallest positive double, \<^verbatim>\<open>2 ** -1074\<close>: \<open>Finite n\<close> is the double of
  value \<^verbatim>\<open>n * 2 ** -1074\<close>. The doubles are the \<open>Finite n\<close> with \<open>\<bar>n\<bar> < 2 ^ 2098\<close> (a value
  below \<^verbatim>\<open>2 ** 1024\<close>) whose \<open>n\<close> has at most 53 significant binary digits, the two
  infinities and NaN. The two zeros are one value, as they are for \<^verbatim>\<open>==\<close>, and NaN is one
  value.

  \<open>round_bits n\<close> rounds \<open>n\<close> to 53 significant binary digits: to the nearest such
  number, and in a tie to the one whose last digit is even. \<open>round_double n\<close> is the
  double nearest to \<^verbatim>\<open>n * 2 ** -1074\<close>, an infinity from \<^verbatim>\<open>2 ** 1024\<close> on.
\<close>

datatype pyfloat = Finite int | PosInf | NegInf | NaN

definition round_bits :: "int \<Rightarrow> int" where
  "round_bits n =
     (let e = bit_length n - 53 in
      if e = 0 then n
      else let q = n div 2 ^ e; r = n mod 2 ^ e; h = 2 ^ (e - 1)
           in (if r < h \<or> (r = h \<and> even q) then q else q + 1) * 2 ^ e)"

definition round_double :: "int \<Rightarrow> pyfloat" where
  "round_double n =
     (let r = round_bits n in
      if 2 ^ 2098 \<le> r then PosInf else if r \<le> - (2 ^ 2098) then NegInf else Finite r)"

text \<open>\<^verbatim>\<open>x + y\<close> and \<^verbatim>\<open>x - y\<close> on floats: the exact result, rounded. Neither raises; a
  result too large is an infinity.\<close>

fun float_add :: "pyfloat \<Rightarrow> pyfloat \<Rightarrow> pyfloat" where
  "float_add NaN y = NaN"
| "float_add x NaN = NaN"
| "float_add PosInf NegInf = NaN"
| "float_add NegInf PosInf = NaN"
| "float_add PosInf y = PosInf"
| "float_add x PosInf = PosInf"
| "float_add NegInf y = NegInf"
| "float_add x NegInf = NegInf"
| "float_add (Finite a) (Finite b) = round_double (a + b)"

fun float_neg :: "pyfloat \<Rightarrow> pyfloat" where
  "float_neg (Finite a) = Finite (- a)"
| "float_neg PosInf = NegInf"
| "float_neg NegInf = PosInf"
| "float_neg NaN = NaN"

instantiation pyfloat :: "{zero, plus, minus}"
begin

definition zero_pyfloat :: pyfloat where
  "zero_pyfloat = Finite 0"

definition plus_pyfloat :: "pyfloat \<Rightarrow> pyfloat \<Rightarrow> pyfloat" where
  "plus_pyfloat x y = float_add x y"

definition minus_pyfloat :: "pyfloat \<Rightarrow> pyfloat \<Rightarrow> pyfloat" where
  "minus_pyfloat x y = float_add x (float_neg y)"

instance ..

end

text \<open>The double of integer value \<open>n\<close>, for an \<open>n\<close> that is one (\<open>flt 1\<close> is \<^verbatim>\<open>1.0\<close>).\<close>

definition flt :: "int \<Rightarrow> pyfloat" where
  "flt n = Finite (n * 2 ^ 1074)"







subsection \<open>\<^verbatim>\<open>text_width\<close>, statement by statement\<close>





subsection \<open>Decoded JSON\<close>

text \<open>What \<^verbatim>\<open>json.load\<close> returns: \<^verbatim>\<open>None\<close>, a bool, a number, a string, a list or a
  dictionary with string keys.\<close>

datatype 'a json =
    JNull
  | JBool bool
  | JNumber 'a
  | JString string
  | JArray "'a json list"
  | JObject "string \<Rightarrow> 'a json option"

text \<open>\<^verbatim>\<open>o[k]\<close> with a string \<open>k\<close> on a decoded value.\<close>

fun getitem :: "'a json \<Rightarrow> string \<Rightarrow> error + 'a json" where
  "getitem (JObject d) k = (case d k of None \<Rightarrow> Inl (KeyError k) | Some v \<Rightarrow> Inr v)"
| "getitem JNull k = Inl TypeError"
| "getitem (JBool b) k = Inl TypeError"
| "getitem (JNumber n) k = Inl TypeError"
| "getitem (JString s) k = Inl TypeError"
| "getitem (JArray xs) k = Inl TypeError"

subsection \<open>\<^verbatim>\<open>from_json\<close>\<close>

text \<open>
  \<^verbatim>\<open>
  o = json.load(f)
  return PrecalculatedTextMeasurer(o['mean-character-length'],
                                   o['character-lengths'],
                                   o['kerning-pairs'])
  \<close>
  \<^verbatim>\<open>json.load\<close> belongs to the standard library: it is the parameter \<open>json_load\<close>, from
  a stream to an error or a decoded value. The three subscripts are evaluated from
  left to right, and the first exception ends the call.
\<close>

type_synonym 'a raw_measurer = "('a json, 'a json) PrecalculatedTextMeasurer"

definition from_json :: "('f \<Rightarrow> error + 'a json) \<Rightarrow> 'f \<Rightarrow> error + 'a raw_measurer" where
  "from_json json_load f =
     (case json_load f of
        Inl e \<Rightarrow> Inl e
      | Inr obj \<Rightarrow>
          (case getitem obj ''mean-character-length'' of
             Inl e \<Rightarrow> Inl e
           | Inr m \<Rightarrow>
               (case getitem obj ''character-lengths'' of
                  Inl e \<Rightarrow> Inl e
                | Inr c \<Rightarrow>
                    (case getitem obj ''kerning-pairs'' of
                       Inl e \<Rightarrow> Inl e
                     | Inr k \<Rightarrow> Inr (init m c k)))))"

subsection \<open>\<^verbatim>\<open>default\<close>\<close>

text \<open>
  \<^verbatim>\<open>default\<close> is a class method: it reads and writes \<^verbatim>\<open>_default_cache\<close> on the
  class it is called through, \<^verbatim>\<open>cls\<close>. A class is given by its method resolution order,
  the list of class names that starts with the class itself and ends with
  \<^verbatim>\<open>PrecalculatedTextMeasurer\<close> (the classes after it in the order, \<^verbatim>\<open>TextMeasurer\<close> and
  \<^verbatim>\<open>object\<close>, have no such attribute and are left out). Reading \<^verbatim>\<open>cls._default_cache\<close>
  takes the entry of the first class in that order whose own namespace has one, and
  raises \<open>AttributeError\<close> when there is none; the assignment
  \<^verbatim>\<open>cls._default_cache = ...\<close> writes the entry of \<^verbatim>\<open>cls\<close> itself.
\<close>

definition base_class :: "string list" where
  "base_class = [''PrecalculatedTextMeasurer'']"

fun class_getattr :: "(string \<Rightarrow> 'v option) \<Rightarrow> string list \<Rightarrow> error + 'v" where
  "class_getattr ns [] = Inl AttributeError"
| "class_getattr ns (k # bases) =
     (case ns k of Some v \<Rightarrow> Inr v | None \<Rightarrow> class_getattr ns bases)"

fun class_setattr :: "(string \<Rightarrow> 'v option) \<Rightarrow> string list \<Rightarrow> 'v \<Rightarrow> (string \<Rightarrow> 'v option)" where
  "class_setattr ns [] v = ns"
| "class_setattr ns (k # bases) v = ns(k \<mapsto> v)"

text \<open>
  The process state \<^verbatim>\<open>default\<close> works on: for every class, the \<^verbatim>\<open>_default_cache\<close> entry
  of its own namespace where it has one (the entry is \<open>None\<close> or a table), and the names
  of the bundled resources the process has opened so far, oldest first. At the start
  only \<^verbatim>\<open>PrecalculatedTextMeasurer\<close> has the entry, from \<^verbatim>\<open>_default_cache = None\<close> in the
  class body.
\<close>

record 'a process =
  default_cache :: "string \<Rightarrow> 'a raw_measurer option option"
  opened :: "string list"

definition initial_process :: "'a process" where
  "initial_process =
     \<lparr>default_cache = [''PrecalculatedTextMeasurer'' \<mapsto> None], opened = []\<rparr>"

text \<open>
  What \<^verbatim>\<open>default\<close> takes from outside the module: the resources bundled with the package
  by name (\<^verbatim>\<open>resources.files(__name__) / name\<close>, present when \<^verbatim>\<open>exists()\<close>), the two
  ways of opening one as a text stream (\<^verbatim>\<open>lzma.open(path, "rt")\<close> and
  \<^verbatim>\<open>open(path, 'r', encoding='utf-8')\<close>), and \<^verbatim>\<open>json.load\<close>.
\<close>

record ('r, 'f, 'a) environment =
  resource_files :: "string \<Rightarrow> 'r option"
  lzma_open :: "'r \<Rightarrow> error + 'f"
  open_utf8 :: "'r \<Rightarrow> error + 'f"
  json_load :: "'f \<Rightarrow> error + 'a json"

definition resource_name_xz :: string where
  "resource_name_xz = ''default-widths.json.xz''"

definition resource_name_json :: string where
  "resource_name_json = ''default-widths.json''"

text \<open>
  \<^verbatim>\<open>
  if cls._default_cache is not None:
      return cls._default_cache
  ...
  if resource_xz_path.exists():
      with resources.as_file(resource_xz_path) as path:
          with lzma.open(path, "rt") as f:
              cls._default_cache = PrecalculatedTextMeasurer.from_json(cast(TextIO, f))
              return cls._default_cache
  elif resource_json_path.exists():
      with resources.as_file(resource_json_path) as path:
          with open(path, 'r', encoding='utf-8') as f:
              cls._default_cache = PrecalculatedTextMeasurer.from_json(f)
              return cls._default_cache
  else:
      raise ValueError('could not load default-widths.json')
  \<close>
  A call returns the raised exception or the table, and the process state it leaves.
\<close>

definition default ::
    "('r, 'f, 'a) environment \<Rightarrow> string list \<Rightarrow> 'a process
       \<Rightarrow> (error + 'a raw_measurer) \<times> 'a process" where
  "default env cls p =
     (case class_getattr (default_cache p) cls of
        Inl e \<Rightarrow> (Inl e, p)
      | Inr (Some cached) \<Rightarrow> (Inr cached, p)
      | Inr None \<Rightarrow>
          (case resource_files env resource_name_xz of
             Some r \<Rightarrow>
               (let p1 = p\<lparr>opened := opened p @ [resource_name_xz]\<rparr> in
                case lzma_open env r of
                  Inl e \<Rightarrow> (Inl e, p1)
                | Inr f \<Rightarrow>
                    (case from_json (json_load env) f of
                       Inl e \<Rightarrow> (Inl e, p1)
                     | Inr m \<Rightarrow>
                         (Inr m,
                          p1\<lparr>default_cache := class_setattr (default_cache p1) cls (Some m)\<rparr>)))
           | None \<Rightarrow>
               (case resource_files env resource_name_json of
                  Some r \<Rightarrow>
                    (let p1 = p\<lparr>opened := opened p @ [resource_name_json]\<rparr> in
                     case open_utf8 env r of
                       Inl e \<Rightarrow> (Inl e, p1)
                     | Inr f \<Rightarrow>
                         (case from_json (json_load env) f of
                            Inl e \<Rightarrow> (Inl e, p1)
                          | Inr m \<Rightarrow>
                              (Inr m,
                               p1\<lparr>default_cache := class_setattr (default_cache p1) cls (Some m)\<rparr>)))
                | None \<Rightarrow> (Inl (ValueError ''could not load default-widths.json''), p))))"

subsection \<open>Example data\<close>

text \<open>A small table: default width 10, widths 5 and 6 for \<open>I\<close> and \<open>J\<close>, kerning 2 for the
  pair \<open>IJ\<close>.\<close>

abbreviation example_table :: "(char, int) measurer" where
  "example_table \<equiv>
     \<lparr>default_character_width = 10, char_to_width = [''I'' \<mapsto> 5, ''J'' \<mapsto> 6],
      pair_to_kern = [''IJ'' \<mapsto> 2]\<rparr>"

text \<open>A decoded document with the three fields, and the instance \<^verbatim>\<open>from_json\<close> builds
  from it.\<close>

abbreviation example_document :: "int json" where
  "example_document \<equiv>
     JObject [''mean-character-length'' \<mapsto> JNumber 10,
              ''character-lengths'' \<mapsto> JObject [''I'' \<mapsto> JNumber 5],
              ''kerning-pairs'' \<mapsto> JObject Map.empty]"

abbreviation example_instance :: "int raw_measurer" where
  "example_instance \<equiv> init (JNumber 10) (JObject [''I'' \<mapsto> JNumber 5]) (JObject Map.empty)"

text \<open>A package with the given resources, in which a resource is its own stream and a
  stream its own decoding.\<close>

abbreviation example_package ::
    "(string \<Rightarrow> (error + int json) option)
       \<Rightarrow> (error + int json, error + int json, int) environment" where
  "example_package files \<equiv>
     \<lparr>resource_files = files, lzma_open = Inr, open_utf8 = Inr, json_load = (\<lambda>s. s)\<rparr>"

text \<open>A table of floats: width \<^verbatim>\<open>2.0 ** 53\<close> for \<open>a\<close>, width \<^verbatim>\<open>1.0\<close> for \<open>b\<close> and as the
  default, kerning \<^verbatim>\<open>2.0 ** 53\<close> for the pair \<open>ab\<close>.\<close>

abbreviation example_float_table :: "(char, pyfloat) measurer" where
  "example_float_table \<equiv>
     \<lparr>default_character_width = flt 1, char_to_width = [''a'' \<mapsto> flt (2 ^ 53), ''b'' \<mapsto> flt 1],
      pair_to_kern = [''ab'' \<mapsto> flt (2 ^ 53)]\<rparr>"



section \<open>Float arithmetic\<close>

lemma bit_length_0 [simp]: "bit_length 0 = 0"
  by (simp add: bit_length.simps)

lemma bit_length_double:
  "0 < n \<Longrightarrow> bit_length (2 * n) = Suc (bit_length n)"
  by (subst bit_length.simps) simp

lemma bit_length_abs: "bit_length \<bar>n\<bar> = bit_length n"
  by (subst bit_length.simps, subst (2) bit_length.simps) simp

lemma bit_length_scale_pos:
  "0 < n \<Longrightarrow> bit_length (n * 2 ^ k) = bit_length n + k"
proof (induction k)
  case 0
  then show ?case by simp
next
  case (Suc k)
  have "bit_length (n * 2 ^ Suc k) = bit_length (2 * (n * 2 ^ k))"
    by (simp add: mult.commute mult.left_commute)
  also have "\<dots> = Suc (bit_length (n * 2 ^ k))"
    using Suc.prems by (intro bit_length_double) simp
  finally show ?case using Suc by simp
qed

lemma bit_length_scale:
  "n \<noteq> 0 \<Longrightarrow> bit_length (n * 2 ^ k) = bit_length n + k"
proof -
  assume "n \<noteq> 0"
  then have "0 < \<bar>n\<bar>" by simp
  from bit_length_scale_pos[OF this, of k]
  have "bit_length \<bar>n * 2 ^ k\<bar> = bit_length \<bar>n\<bar> + k"
    by (simp add: abs_mult)
  then show ?thesis by (simp add: bit_length_abs)
qed

lemma bit_length_le:
  "\<bar>n\<bar> < 2 ^ k \<Longrightarrow> bit_length n \<le> k"
proof (induction k arbitrary: n)
  case 0
  then show ?case by simp
next
  case (Suc k)
  show ?case
  proof (cases "n = 0")
    case True
    then show ?thesis by simp
  next
    case False
    have "\<bar>\<bar>n\<bar> div 2\<bar> < 2 ^ k"
      using Suc.prems by simp
    from Suc.IH[OF this] False show ?thesis
      by (subst bit_length.simps) simp
  qed
qed

text \<open>A number of at most 53 binary digits is its own rounding.\<close>

lemma round_bits_small:
  "\<bar>n\<bar> < 9007199254740992 \<Longrightarrow> round_bits n = n"
  using bit_length_le[of n 53] by (simp add: round_bits_def)

text \<open>Rounding to 53 significant digits commutes with scaling by a power of two.\<close>

lemma round_bits_scale:
  "round_bits (n * 2 ^ k) = round_bits n * 2 ^ k"
proof (cases "n = 0")
  case True
  then show ?thesis by (simp add: round_bits_def)
next
  case False
  note bl = bit_length_scale[OF False, of k]
  show ?thesis
  proof (cases "bit_length n \<le> 53")
    case True
    then have rn: "round_bits n = n" by (simp add: round_bits_def)
    define e where "e = bit_length (n * 2 ^ k) - 53"
    have ek: "e \<le> k" using True bl by (simp add: e_def)
    show ?thesis
    proof (cases "e = 0")
      case True
      then show ?thesis using rn by (simp add: round_bits_def e_def)
    next
      case False
      from ek obtain j where k: "k = e + j" using le_Suc_ex by blast
      have n': "n * 2 ^ k = (n * 2 ^ j) * 2 ^ e"
        by (simp add: k power_add mult.commute mult.left_commute)
      have dv: "(n * 2 ^ k) div 2 ^ e = n * 2 ^ j" and md: "(n * 2 ^ k) mod 2 ^ e = 0"
        unfolding n' by simp_all
      have "round_bits (n * 2 ^ k) = ((n * 2 ^ k) div 2 ^ e) * 2 ^ e"
        unfolding round_bits_def e_def[symmetric] Let_def md using False by simp
      then show ?thesis unfolding dv rn n' by simp
    qed
  next
    case False
    define e where "e = bit_length n - 53"
    have e0: "e \<noteq> 0" and e': "bit_length (n * 2 ^ k) - 53 = e + k"
      using False bl by (simp_all add: e_def)
    have d: "(n * 2 ^ k) div 2 ^ (e + k) = n div 2 ^ e"
      by (simp add: power_add)
    have m: "(n * 2 ^ k) mod 2 ^ (e + k) = (n mod 2 ^ e) * 2 ^ k"
      by (simp add: power_add)
    have h: "(2::int) ^ (e + k - 1) = 2 ^ (e - 1) * 2 ^ k"
      using e0 by (simp add: power_add[symmetric])
    have "round_bits (n * 2 ^ k) =
            (if (n mod 2 ^ e) * 2 ^ k < 2 ^ (e - 1) * 2 ^ k
                \<or> ((n mod 2 ^ e) * 2 ^ k = 2 ^ (e - 1) * 2 ^ k \<and> even (n div 2 ^ e))
             then n div 2 ^ e else n div 2 ^ e + 1) * 2 ^ (e + k)"
      unfolding round_bits_def e' Let_def d m h using e0 by simp
    also have "\<dots> =
            (if n mod 2 ^ e < 2 ^ (e - 1) \<or> (n mod 2 ^ e = 2 ^ (e - 1) \<and> even (n div 2 ^ e))
             then n div 2 ^ e else n div 2 ^ e + 1) * 2 ^ e * 2 ^ k"
      by (simp add: power_add)
    also have "\<dots> = round_bits n * 2 ^ k"
      unfolding round_bits_def e_def[symmetric] Let_def using e0 by simp
    finally show ?thesis .
  qed
qed

lemma round_double_flt:
  assumes "\<bar>round_bits n\<bar> < 2 ^ 1024"
  shows "round_double (n * 2 ^ 1074) = flt (round_bits n)"
proof -
  define U :: int where "U = 2 ^ 1074"
  define M :: int where "M = 2 ^ 2098"
  have MU: "M = 2 ^ 1024 * U" and U0: "0 < U"
    by (simp_all add: M_def U_def)
  have "\<bar>round_bits n\<bar> * U < 2 ^ 1024 * U"
    using assms U0 by simp
  then have "\<bar>round_bits n * U\<bar> < M"
    using U0 by (simp add: abs_mult MU)
  then have "\<not> M \<le> round_bits n * U" "\<not> round_bits n * U \<le> - M"
    by simp_all
  moreover have "round_bits (n * U) = round_bits n * U"
    unfolding U_def by (rule round_bits_scale)
  ultimately show ?thesis
    unfolding round_double_def flt_def Let_def U_def[symmetric] M_def[symmetric] by simp
qed


text \<open>Sums and differences of doubles with integer values.\<close>

lemma flt_add:
  "\<bar>round_bits (a + b)\<bar> < 2 ^ 1024 \<Longrightarrow> flt a + flt b = flt (round_bits (a + b))"
  unfolding plus_pyfloat_def flt_def float_add.simps distrib_right[symmetric]
  by (rule round_double_flt[unfolded flt_def])

lemma flt_sub:
  "\<bar>round_bits (a - b)\<bar> < 2 ^ 1024 \<Longrightarrow> flt a - flt b = flt (round_bits (a - b))"
  unfolding minus_pyfloat_def flt_def float_add.simps float_neg.simps
    mult_minus_left[symmetric] distrib_right[symmetric]
  using round_double_flt[unfolded flt_def, of "a - b"] by simp

lemma zero_flt: "(0::pyfloat) = flt 0"
  by (simp add: zero_pyfloat_def flt_def)

lemma flt_inject: "flt a = flt b \<longleftrightarrow> a = b"
  unfolding flt_def by simp

text \<open>\<^verbatim>\<open>2.0 ** 53 + 1.0\<close> is \<^verbatim>\<open>2.0 ** 53\<close>: the tie goes to the even neighbour.
  \<^verbatim>\<open>2.0 ** 53 + 2.0\<close> is exact.\<close>

lemma round_bits_examples:
  "round_bits 9007199254740992 = 9007199254740992"
  "round_bits 9007199254740993 = 9007199254740992"
  "round_bits 9007199254740994 = 9007199254740994"
  by code_simp+



section \<open>Properties of \<^verbatim>\<open>text_width\<close>\<close>

lemma enumerate_upt_nth:
  "enumerate 0 xs = map (\<lambda>i. (i, xs ! i)) [0..<length xs]"
  by (rule nth_equalityI) (simp_all add: nth_enumerate_eq)

lemma text_width_upt:
  "text_width self text =
     fold (\<lambda>i width.
             (width + dict_get (char_to_width self) [text ! i] (default_character_width self))
               - dict_get (pair_to_kern self) (slice text i (i + 2)) 0)
          [0..<length text] 0"
  by (simp add: text_width_def enumerate_upt_nth fold_map comp_def)

lemma fold_upt_add_diff:
  fixes a :: "'a::ab_group_add"
  shows "fold (\<lambda>i w. (w + f i) - g i) [0..<n] a = a + (\<Sum>i<n. f i) - (\<Sum>i<n. g i)"
  by (induction n) (simp_all add: algebra_simps)

text \<open>
  Claim C1, as stated: for every table, \<open>text_width\<close> is the sum of the width lookups
  minus the sum of the kerning lookups. It fails on tables of floats, where the loop
  rounds after every addition and subtraction. In the example table the text \<open>bab\<close>
  measures \<^verbatim>\<open>1.0\<close>: the loop computes \<^verbatim>\<open>1.0 + 2.0 ** 53\<close>, which is \<^verbatim>\<open>2.0 ** 53\<close>, subtracts
  the kerning \<^verbatim>\<open>2.0 ** 53\<close> of \<open>ab\<close> and adds \<^verbatim>\<open>1.0\<close>. The sum of the three widths is
  \<^verbatim>\<open>2.0 ** 53\<close> in floats and the sum of the kerning lookups is \<^verbatim>\<open>2.0 ** 53\<close>, so the
  difference of the sums is \<^verbatim>\<open>0.0\<close> (and 2 in exact arithmetic).
\<close>

theorem text_width_sum_counterexample:
  "text_width example_float_table ''bab''
     \<noteq> (dict_get (char_to_width example_float_table) ''b''
            (default_character_width example_float_table)
          + dict_get (char_to_width example_float_table) ''a''
              (default_character_width example_float_table)
          + dict_get (char_to_width example_float_table) ''b''
              (default_character_width example_float_table))
       - (dict_get (pair_to_kern example_float_table) ''ba'' 0
          + dict_get (pair_to_kern example_float_table) ''ab'' 0
          + dict_get (pair_to_kern example_float_table) ''b'' 0)
   \<and> text_width example_float_table ''bab'' = flt 1"
  by (simp add: text_width_def slice_def dict_get_def zero_flt flt_add flt_sub flt_inject
        round_bits_small round_bits_examples)

text \<open>
  Claim C1, amended: for every table and every text, \<open>text_width\<close> is the result of
  the accumulation that starts from 0 and, for each index \<open>i\<close> from left to right, adds
  \<^verbatim>\<open>char_to_width.get(text[i], default_character_width)\<close> and then subtracts
  \<^verbatim>\<open>pair_to_kern.get(text[i:i+2], 0)\<close>; the empty text has width 0. In exact
  arithmetic, as on a table of ints, it equals the sum of the width lookups minus the
  sum of the kerning lookups.
\<close>

theorem text_width_sum:
  fixes self :: "('c, 'a::{zero,plus,minus}) measurer"
    and exact :: "('c, 'b::ab_group_add) measurer"
  shows "text_width self text =
           fold (\<lambda>i width.
                   (width + dict_get (char_to_width self) [text ! i] (default_character_width self))
                     - dict_get (pair_to_kern self) (slice text i (i + 2)) 0)
                [0..<length text] 0
         \<and> text_width exact text =
             (\<Sum>i<length text.
                 dict_get (char_to_width exact) [text ! i] (default_character_width exact))
             - (\<Sum>i<length text. dict_get (pair_to_kern exact) (slice text i (i + 2)) 0)
         \<and> text_width self [] = 0"
proof (intro conjI)
  show "text_width self text =
           fold (\<lambda>i width.
                   (width + dict_get (char_to_width self) [text ! i] (default_character_width self))
                     - dict_get (pair_to_kern self) (slice text i (i + 2)) 0)
                [0..<length text] 0"
    by (rule text_width_upt)
  show "text_width exact text =
          (\<Sum>i<length text.
              dict_get (char_to_width exact) [text ! i] (default_character_width exact))
          - (\<Sum>i<length text. dict_get (pair_to_kern exact) (slice text i (i + 2)) 0)"
    unfolding text_width_upt by (simp add: fold_upt_add_diff)
  show "text_width self [] = 0"
    by (simp add: text_width_def)
qed

subsection \<open>One character\<close>

lemma text_width_single:
  fixes self :: "('c, 'a::group_add) measurer"
  shows "text_width self [c] =
           dict_get (char_to_width self) [c] (default_character_width self)
           - dict_get (pair_to_kern self) [c] 0"
  by (simp add: text_width_def slice_def)

text \<open>
  Claim C2, as stated: measuring the one-character string \<open>c\<close> returns
  \<^verbatim>\<open>char_to_width.get(c, default_character_width)\<close> whatever \<open>pair_to_kern\<close> holds. It
  fails on a table whose \<open>pair_to_kern\<close> has the one-character key \<open>c\<close>: the slice at
  the last index is that key, and its value is subtracted. With width 5 for \<open>I\<close> and
  the kerning entry 2 under the key \<open>I\<close> the result is 3, not 5.
\<close>

theorem text_width_single_char_counterexample:
  "text_width (example_table\<lparr>pair_to_kern := [''I'' \<mapsto> 2]\<rparr>) ''I''
     \<noteq> dict_get (char_to_width (example_table\<lparr>pair_to_kern := [''I'' \<mapsto> 2]\<rparr>)) ''I''
         (default_character_width (example_table\<lparr>pair_to_kern := [''I'' \<mapsto> 2]\<rparr>))"
  by (simp add: text_width_def slice_def dict_get_def)

text \<open>
  Claim C2, amended: measuring the one-character string \<open>c\<close> returns
  \<^verbatim>\<open>char_to_width.get(c, default_character_width) - pair_to_kern.get(c, 0)\<close>; it is
  exactly the width lookup for every table whose \<open>pair_to_kern\<close> has no entry under the
  one-character key \<open>c\<close>.
\<close>

theorem text_width_single_char:
  fixes self :: "('c, 'a::group_add) measurer"
  shows "text_width self [c] =
           dict_get (char_to_width self) [c] (default_character_width self)
           - dict_get (pair_to_kern self) [c] 0
         \<and> (pair_to_kern self [c] = None \<longrightarrow>
              text_width self [c] = dict_get (char_to_width self) [c] (default_character_width self))"
  by (simp add: text_width_single dict_get_def)

theorem text_width_single_char_witness:
  "pair_to_kern example_table ''I'' = None \<and> text_width example_table ''I'' = 5"
  using text_width_single_char [of example_table "CHR ''I''"]
  by (simp add: dict_get_def)

subsection \<open>The keys of the kerning lookups\<close>

lemma kern_lookups_upt:
  "kern_lookups text = map (\<lambda>i. slice text i (i + 2)) [0..<length text]"
  by (simp add: kern_lookups_def enumerate_upt_nth comp_def)

lemma length_slice:
  "length (slice text i j) = min (j - i) (length text - i)"
  by (simp add: slice_def)

text \<open>\<open>text_width\<close> reads \<open>pair_to_kern\<close> at the keys of \<open>kern_lookups\<close> only: two tables
  that agree there, and on the widths, measure the text alike.\<close>

lemma text_width_kern_cong:
  assumes "\<forall>k \<in> set (kern_lookups text). pair_to_kern self k = pair_to_kern self' k"
    and "char_to_width self = char_to_width self'"
    and "default_character_width self = default_character_width self'"
  shows "text_width self text = text_width self' text"
proof -
  have "\<forall>i < length text.
          pair_to_kern self (slice text i (i + 2)) = pair_to_kern self' (slice text i (i + 2))"
    using assms(1) by (simp add: kern_lookups_upt)
  then have "\<And>i. i \<in> set [0..<length text] \<Longrightarrow>
      (\<lambda>width. (width + dict_get (char_to_width self) [text ! i] (default_character_width self))
               - dict_get (pair_to_kern self) (slice text i (i + 2)) 0)
    = (\<lambda>width. (width + dict_get (char_to_width self') [text ! i] (default_character_width self'))
               - dict_get (pair_to_kern self') (slice text i (i + 2)) 0)"
    using assms(2,3) by (simp add: dict_get_def)
  then show ?thesis
    unfolding text_width_upt by (rule fold_cong[OF refl refl])
qed

text \<open>The loop pairs every character with its key of \<open>kern_lookups\<close>: these keys, each
  once and in this order, are the lookups of a call.\<close>

lemma text_width_lookups:
  "text_width self text =
     fold (\<lambda>(c, key) width.
             (width + dict_get (char_to_width self) [c] (default_character_width self))
               - dict_get (pair_to_kern self) key 0)
          (zip text (kern_lookups text)) 0"
proof -
  have "zip text (kern_lookups text)
          = map (\<lambda>i. (text ! i, slice text i (i + 2))) [0..<length text]"
    by (rule nth_equalityI) (simp_all add: kern_lookups_upt)
  then show ?thesis
    by (simp add: text_width_upt fold_map comp_def)
qed

text \<open>
  Claim C3, as stated: every key used to look up \<open>pair_to_kern\<close> has exactly two
  characters. It fails at the last index of every non-empty text: for \<open>ab\<close> the second
  lookup uses the key \<open>b\<close>, of length 1.
\<close>

theorem kern_lookups_two_chars_counterexample:
  "''b'' \<in> set (kern_lookups ''ab'') \<and> length ''b'' \<noteq> 2"
  by (simp add: kern_lookups_def slice_def)

text \<open>
  Claim C3, amended: the keys used to look up \<open>pair_to_kern\<close> have two characters at
  every index but the last and one character at the last index; no key is empty or
  longer than two characters.
\<close>

theorem kern_lookups_lengths:
  "map length (kern_lookups text)
     = replicate (length text - 1) 2 @ (if text = [] then [] else [1])"
proof (rule nth_equalityI)
  show "length (map length (kern_lookups text)) =
          length (replicate (length text - 1) 2 @ (if text = [] then [] else [1::nat]))"
    by (simp add: kern_lookups_upt)
next
  fix i assume "i < length (map length (kern_lookups text))"
  then have "i < length text" by (simp add: kern_lookups_upt)
  then show "map length (kern_lookups text) ! i =
          (replicate (length text - 1) 2 @ (if text = [] then [] else [1])) ! i"
    by (auto simp add: kern_lookups_upt length_slice nth_append)
qed

subsection \<open>Three characters\<close>

lemma text_width_three:
  fixes self :: "('c, 'a::ab_group_add) measurer"
  shows "text_width self [x, y, z] =
      dict_get (char_to_width self) [x] (default_character_width self)
    + dict_get (char_to_width self) [y] (default_character_width self)
    + dict_get (char_to_width self) [z] (default_character_width self)
    - dict_get (pair_to_kern self) [x, y] 0
    - dict_get (pair_to_kern self) [y, z] 0
    - dict_get (pair_to_kern self) [z] 0"
  by (simp add: text_width_def slice_def algebra_simps)

lemma kern_lookups_three: "kern_lookups [x, y, z] = [[x, y], [y, z], [z]]"
  by (simp add: kern_lookups_def slice_def)

text \<open>
  Claim C4, as stated: for every table, \<open>text_width\<close> of \<open>xyz\<close> is
  \<open>width x + width y + width z - kern xy - kern yz\<close>. It fails on a table whose
  \<open>pair_to_kern\<close> has the last character as a one-character key: with the widths 5, 6
  and 10 for \<open>I\<close>, \<open>J\<close> and \<open>x\<close> and the entry 1 under the key \<open>x\<close>, the text \<open>IJx\<close>
  measures 20, not 21.
\<close>

theorem text_width_three_chars_counterexample:
  "text_width (example_table\<lparr>pair_to_kern := [''x'' \<mapsto> 1]\<rparr>) ''IJx''
     \<noteq> dict_get (char_to_width (example_table\<lparr>pair_to_kern := [''x'' \<mapsto> 1]\<rparr>)) ''I''
           (default_character_width (example_table\<lparr>pair_to_kern := [''x'' \<mapsto> 1]\<rparr>))
       + dict_get (char_to_width (example_table\<lparr>pair_to_kern := [''x'' \<mapsto> 1]\<rparr>)) ''J''
           (default_character_width (example_table\<lparr>pair_to_kern := [''x'' \<mapsto> 1]\<rparr>))
       + dict_get (char_to_width (example_table\<lparr>pair_to_kern := [''x'' \<mapsto> 1]\<rparr>)) ''x''
           (default_character_width (example_table\<lparr>pair_to_kern := [''x'' \<mapsto> 1]\<rparr>))
       - dict_get (pair_to_kern (example_table\<lparr>pair_to_kern := [''x'' \<mapsto> 1]\<rparr>)) ''IJ'' 0
       - dict_get (pair_to_kern (example_table\<lparr>pair_to_kern := [''x'' \<mapsto> 1]\<rparr>)) ''Jx'' 0"
  by (simp add: text_width_def slice_def dict_get_def)

lemma text_width_three_steps:
  "text_width self [x, y, z] =
      (((((0 + dict_get (char_to_width self) [x] (default_character_width self))
           - dict_get (pair_to_kern self) [x, y] 0)
          + dict_get (char_to_width self) [y] (default_character_width self))
         - dict_get (pair_to_kern self) [y, z] 0)
        + dict_get (char_to_width self) [z] (default_character_width self))
       - dict_get (pair_to_kern self) [z] 0"
  by (simp add: text_width_def slice_def)

text \<open>
  Claim C4, amended: for every table, \<open>text_width\<close> of \<open>xyz\<close> is the result of starting
  from 0 and adding \<open>width x\<close>, subtracting \<open>kern xy\<close>, adding \<open>width y\<close>, subtracting
  \<open>kern yz\<close>, adding \<open>width z\<close> and subtracting \<open>kern z\<close>, in this order, the last term
  being the lookup of the one-character key at the last index (0 when absent). The keys
  looked up are \<open>xy\<close>, \<open>yz\<close> and \<open>z\<close>, and when \<open>xz\<close> is none of the adjacent pairs
  (\<open>x \<noteq> y\<close> and \<open>y \<noteq> z\<close>) the entry under \<open>xz\<close> has no influence on the result. In
  exact arithmetic, as on a table of ints, the result is
  \<open>width x + width y + width z - kern xy - kern yz - kern z\<close>, which is
  \<open>width x + width y + width z - kern xy - kern yz\<close> for every table without an entry
  under the key \<open>z\<close>.
\<close>

theorem text_width_three_chars:
  fixes self :: "('c, 'a::{zero,plus,minus}) measurer"
    and exact :: "('c, 'b::ab_group_add) measurer"
  shows "text_width self [x, y, z] =
            (((((0 + dict_get (char_to_width self) [x] (default_character_width self))
                 - dict_get (pair_to_kern self) [x, y] 0)
                + dict_get (char_to_width self) [y] (default_character_width self))
               - dict_get (pair_to_kern self) [y, z] 0)
              + dict_get (char_to_width self) [z] (default_character_width self))
             - dict_get (pair_to_kern self) [z] 0
         \<and> kern_lookups [x, y, z] = [[x, y], [y, z], [z]]
         \<and> (x \<noteq> y \<and> y \<noteq> z \<longrightarrow>
              (\<forall>v. text_width (self\<lparr>pair_to_kern := (pair_to_kern self)([x, z] := v)\<rparr>) [x, y, z]
                     = text_width self [x, y, z]))
         \<and> text_width exact [x, y, z] =
               dict_get (char_to_width exact) [x] (default_character_width exact)
             + dict_get (char_to_width exact) [y] (default_character_width exact)
             + dict_get (char_to_width exact) [z] (default_character_width exact)
             - dict_get (pair_to_kern exact) [x, y] 0
             - dict_get (pair_to_kern exact) [y, z] 0
             - dict_get (pair_to_kern exact) [z] 0
         \<and> (pair_to_kern exact [z] = None \<longrightarrow>
              text_width exact [x, y, z] =
                  dict_get (char_to_width exact) [x] (default_character_width exact)
                + dict_get (char_to_width exact) [y] (default_character_width exact)
                + dict_get (char_to_width exact) [z] (default_character_width exact)
                - dict_get (pair_to_kern exact) [x, y] 0
                - dict_get (pair_to_kern exact) [y, z] 0)"
proof (intro conjI impI allI)
  show "text_width self [x, y, z] =
            (((((0 + dict_get (char_to_width self) [x] (default_character_width self))
                 - dict_get (pair_to_kern self) [x, y] 0)
                + dict_get (char_to_width self) [y] (default_character_width self))
               - dict_get (pair_to_kern self) [y, z] 0)
              + dict_get (char_to_width self) [z] (default_character_width self))
             - dict_get (pair_to_kern self) [z] 0"
    by (rule text_width_three_steps)
next
  show "kern_lookups [x, y, z] = [[x, y], [y, z], [z]]"
    by (rule kern_lookups_three)
next
  fix v
  assume "x \<noteq> y \<and> y \<noteq> z"
  then have "\<forall>k \<in> set (kern_lookups [x, y, z]).
               pair_to_kern (self\<lparr>pair_to_kern := (pair_to_kern self)([x, z] := v)\<rparr>) k
                 = pair_to_kern self k"
    by (auto simp add: kern_lookups_three)
  then show "text_width (self\<lparr>pair_to_kern := (pair_to_kern self)([x, z] := v)\<rparr>) [x, y, z]
               = text_width self [x, y, z]"
    by (rule text_width_kern_cong) simp_all
next
  show "text_width exact [x, y, z] =
               dict_get (char_to_width exact) [x] (default_character_width exact)
             + dict_get (char_to_width exact) [y] (default_character_width exact)
             + dict_get (char_to_width exact) [z] (default_character_width exact)
             - dict_get (pair_to_kern exact) [x, y] 0
             - dict_get (pair_to_kern exact) [y, z] 0
             - dict_get (pair_to_kern exact) [z] 0"
    by (rule text_width_three)
next
  assume "pair_to_kern exact [z] = None"
  then show "text_width exact [x, y, z] =
                  dict_get (char_to_width exact) [x] (default_character_width exact)
                + dict_get (char_to_width exact) [y] (default_character_width exact)
                + dict_get (char_to_width exact) [z] (default_character_width exact)
                - dict_get (pair_to_kern exact) [x, y] 0
                - dict_get (pair_to_kern exact) [y, z] 0"
    by (simp add: text_width_three dict_get_def)
qed

text \<open>The text \<open>IJx\<close> measures \<open>5 + 6 + 10 - 2\<close>, with or without an entry under \<open>Ix\<close>.\<close>

theorem text_width_three_chars_witness:
  "CHR ''I'' \<noteq> CHR ''J'' \<and> CHR ''J'' \<noteq> CHR ''x''
   \<and> pair_to_kern example_table ''x'' = None
   \<and> text_width example_table ''IJx'' = 19
   \<and> text_width (example_table\<lparr>pair_to_kern := (pair_to_kern example_table)(''Ix'' \<mapsto> 4)\<rparr>) ''IJx''
       = text_width example_table ''IJx''"
  using text_width_three_chars
    [of example_table "CHR ''I''" "CHR ''J''" "CHR ''x''" example_table]
  by (simp add: dict_get_def)

subsection \<open>Totality and purity\<close>














subsection \<open>Tables without kerning\<close>

lemma fold_enumerate_no_kern:
  fixes a :: "'a::group_add"
  shows "fold (\<lambda>(index, c) width. (width + f c) - 0) (enumerate n xs) a
           = a + sum_list (map f xs)"
  by (induction xs arbitrary: n a) (simp_all add: add.assoc)

lemma text_width_no_kern:
  fixes self :: "('c, 'a::group_add) measurer"
  assumes "pair_to_kern self = Map.empty"
  shows "text_width self text =
     sum_list (map (\<lambda>c. dict_get (char_to_width self) [c] (default_character_width self)) text)"
  using fold_enumerate_no_kern
    [of "\<lambda>c. dict_get (char_to_width self) [c] (default_character_width self)" 0 "text" 0]
  by (simp add: text_width_def assms dict_get_def)

lemma fold_enumerate_index_free:
  "fold (\<lambda>(index, c). f c) (enumerate n xs) a = fold f xs a"
  by (induction xs arbitrary: n a) simp_all

lemma text_width_no_kern_fold:
  assumes "pair_to_kern self = Map.empty"
  shows "text_width self text =
     fold (\<lambda>c width. (width + dict_get (char_to_width self) [c] (default_character_width self)) - 0)
       text 0"
  using fold_enumerate_index_free
    [of "\<lambda>c width. (width + dict_get (char_to_width self) [c] (default_character_width self)) - 0"
        0 "text" 0]
  by (simp add: text_width_def assms dict_get_def case_prod_unfold)

text \<open>
  Claim C10, as stated: for every table with an empty \<open>pair_to_kern\<close>,
  \<open>text_width (s @ t) = text_width s + text_width t\<close>. It fails on tables of floats. With
  the widths \<^verbatim>\<open>2.0 ** 53\<close> for \<open>a\<close> and \<^verbatim>\<open>1.0\<close> for \<open>b\<close>, the text \<open>abb\<close> measures
  \<^verbatim>\<open>2.0 ** 53\<close>, since adding \<^verbatim>\<open>1.0\<close> to \<^verbatim>\<open>2.0 ** 53\<close> gives \<^verbatim>\<open>2.0 ** 53\<close> again, while \<open>a\<close>
  measures \<^verbatim>\<open>2.0 ** 53\<close>, \<open>bb\<close> measures \<^verbatim>\<open>2.0\<close> and their sum is \<^verbatim>\<open>2.0 ** 53 + 2\<close>.
\<close>

theorem text_width_append_no_kern_counterexample:
  "pair_to_kern (example_float_table\<lparr>pair_to_kern := Map.empty\<rparr>) = Map.empty
   \<and> text_width (example_float_table\<lparr>pair_to_kern := Map.empty\<rparr>) (''a'' @ ''bb'')
       \<noteq> text_width (example_float_table\<lparr>pair_to_kern := Map.empty\<rparr>) ''a''
         + text_width (example_float_table\<lparr>pair_to_kern := Map.empty\<rparr>) ''bb''
   \<and> text_width (example_float_table\<lparr>pair_to_kern := Map.empty\<rparr>) (''a'' @ ''bb'')
       = flt (2 ^ 53)
   \<and> text_width (example_float_table\<lparr>pair_to_kern := Map.empty\<rparr>) ''a''
         + text_width (example_float_table\<lparr>pair_to_kern := Map.empty\<rparr>) ''bb''
       = flt (2 ^ 53 + 2)"
  by (simp add: text_width_def slice_def dict_get_def zero_flt flt_add flt_sub flt_inject
        round_bits_small round_bits_examples)

text \<open>
  Claim C10, amended: for every table whose \<open>pair_to_kern\<close> is empty, measuring
  \<open>s @ t\<close> continues the accumulation of \<open>s\<close> over the characters of \<open>t\<close>, and
  \<open>text_width [] = 0\<close>. In exact arithmetic, as on a table of ints, \<open>text_width\<close> is a
  monoid homomorphism from strings under concatenation to numbers under addition:
  \<open>text_width (s @ t) = text_width s + text_width t\<close>.
\<close>

theorem text_width_append_no_kern:
  fixes self :: "('c, 'a::{zero,plus,minus}) measurer"
    and exact :: "('c, 'b::group_add) measurer"
  assumes "pair_to_kern self = Map.empty" and "pair_to_kern exact = Map.empty"
  shows "text_width self (s @ t) =
           fold (\<lambda>c width.
                   (width + dict_get (char_to_width self) [c] (default_character_width self)) - 0)
                t (text_width self s)
         \<and> text_width self [] = 0
         \<and> text_width exact (s @ t) = text_width exact s + text_width exact t
         \<and> text_width exact [] = 0"
  by (simp add: text_width_no_kern_fold[OF assms(1)] text_width_no_kern[OF assms(2)])

theorem text_width_append_no_kern_witness:
  "pair_to_kern (example_table\<lparr>pair_to_kern := Map.empty\<rparr>) = Map.empty
   \<and> text_width (example_table\<lparr>pair_to_kern := Map.empty\<rparr>) (''IJ'' @ ''xI'')
     = text_width (example_table\<lparr>pair_to_kern := Map.empty\<rparr>) ''IJ''
       + text_width (example_table\<lparr>pair_to_kern := Map.empty\<rparr>) ''xI''"
  using text_width_append_no_kern
    [of "example_table\<lparr>pair_to_kern := Map.empty\<rparr>"
        "example_table\<lparr>pair_to_kern := Map.empty\<rparr>" "''IJ''" "''xI''"]
  by simp

section \<open>Properties of \<^verbatim>\<open>from_json\<close>\<close>

lemma getitem_Inr_iff:
  "getitem obj k = Inr v \<longleftrightarrow> (\<exists>d. obj = JObject d \<and> d k = Some v)"
  by (cases obj) (auto split: option.splits)

lemma getitem_Inl_iff:
  "getitem obj k = Inl e \<longleftrightarrow>
     (\<exists>d. obj = JObject d \<and> d k = None \<and> e = KeyError k)
     \<or> ((\<forall>d. obj \<noteq> JObject d) \<and> e = TypeError)"
  by (cases obj) (auto split: option.splits)

lemma from_json_Inr_iff:
  "from_json load f = Inr t \<longleftrightarrow>
     (\<exists>d. load f = Inr (JObject d)
        \<and> d ''mean-character-length'' = Some (default_character_width t)
        \<and> d ''character-lengths'' = Some (char_to_width t)
        \<and> d ''kerning-pairs'' = Some (pair_to_kern t))"
proof
  assume "from_json load f = Inr t"
  then obtain obj m c k where o: "load f = Inr obj"
    and g: "getitem obj ''mean-character-length'' = Inr m"
      "getitem obj ''character-lengths'' = Inr c"
      "getitem obj ''kerning-pairs'' = Inr k"
    and t: "t = init m c k"
    by (auto simp add: from_json_def split: sum.splits)
  from g obtain d where "obj = JObject d" by (auto simp add: getitem_Inr_iff)
  with o g t show "\<exists>d. load f = Inr (JObject d)
        \<and> d ''mean-character-length'' = Some (default_character_width t)
        \<and> d ''character-lengths'' = Some (char_to_width t)
        \<and> d ''kerning-pairs'' = Some (pair_to_kern t)"
    by (auto simp add: init_def split: option.splits)
next
  assume "\<exists>d. load f = Inr (JObject d)
        \<and> d ''mean-character-length'' = Some (default_character_width t)
        \<and> d ''character-lengths'' = Some (char_to_width t)
        \<and> d ''kerning-pairs'' = Some (pair_to_kern t)"
  then show "from_json load f = Inr t"
    by (auto simp add: from_json_def init_def)
qed

lemma from_json_Inl_cases:
  assumes "from_json load f = Inl e"
  shows "load f = Inl e
       \<or> (\<exists>obj. load f = Inr obj \<and> (\<forall>d. obj \<noteq> JObject d) \<and> e = TypeError)
       \<or> (\<exists>d k. load f = Inr (JObject d) \<and> d k = None \<and> e = KeyError k
             \<and> k \<in> {''mean-character-length'', ''character-lengths'', ''kerning-pairs''})"
  using assms
  by (auto simp add: from_json_def getitem_Inl_iff split: sum.splits)

text \<open>
  Claim C6. \<open>from_json\<close> fails exactly when the stream cannot be decoded (\<open>load\<close>
  fails) or the decoded value lacks one of the fields \<^verbatim>\<open>mean-character-length\<close>,
  \<^verbatim>\<open>character-lengths\<close>, \<^verbatim>\<open>kerning-pairs\<close> (a decoded value that is no dictionary has
  none of them). The exception is the decoder's own, a \<open>KeyError\<close> for a required field
  or a \<open>TypeError\<close>: the errors the specification calls \<^verbatim>\<open>DataFormatError\<close>. A table is
  returned only for a dictionary with the three fields, and its fields are the three
  decoded values, so partial or garbage input never yields a table of defaults; and a
  dictionary with the three fields always yields that table.
\<close>

theorem from_json_fails_iff:
  "((\<exists>e. from_json load f = Inl e) \<longleftrightarrow>
       (\<exists>e. load f = Inl e)
     \<or> (\<exists>obj. load f = Inr obj
          \<and> (\<forall>d. obj = JObject d \<longrightarrow>
                 d ''mean-character-length'' = None \<or> d ''character-lengths'' = None
               \<or> d ''kerning-pairs'' = None)))
   \<and> (\<forall>e. from_json load f = Inl e \<longrightarrow>
          load f = Inl e \<or> e = TypeError
        \<or> e \<in> KeyError ` {''mean-character-length'', ''character-lengths'', ''kerning-pairs''})
   \<and> (\<forall>t. from_json load f = Inr t \<longrightarrow>
          (\<exists>d. load f = Inr (JObject d)
             \<and> d ''mean-character-length'' = Some (default_character_width t)
             \<and> d ''character-lengths'' = Some (char_to_width t)
             \<and> d ''kerning-pairs'' = Some (pair_to_kern t)))
   \<and> (\<forall>d m c k. load f = Inr (JObject d) \<longrightarrow> d ''mean-character-length'' = Some m \<longrightarrow>
          d ''character-lengths'' = Some c \<longrightarrow> d ''kerning-pairs'' = Some k \<longrightarrow>
          from_json load f = Inr (init m c k))"
proof (intro conjI allI impI)
  show "(\<exists>e. from_json load f = Inl e) \<longleftrightarrow>
       (\<exists>e. load f = Inl e)
     \<or> (\<exists>obj. load f = Inr obj
          \<and> (\<forall>d. obj = JObject d \<longrightarrow>
                 d ''mean-character-length'' = None \<or> d ''character-lengths'' = None
               \<or> d ''kerning-pairs'' = None))"
  proof (cases "from_json load f")
    case (Inl e)
    from from_json_Inl_cases[OF this] Inl show ?thesis by auto
  next
    case (Inr t)
    then obtain d where "load f = Inr (JObject d)"
      "d ''mean-character-length'' = Some (default_character_width t)"
      "d ''character-lengths'' = Some (char_to_width t)"
      "d ''kerning-pairs'' = Some (pair_to_kern t)"
      by (auto simp add: from_json_Inr_iff)
    with Inr show ?thesis by simp
  qed
next
  fix e assume "from_json load f = Inl e"
  from from_json_Inl_cases[OF this]
  show "load f = Inl e \<or> e = TypeError
        \<or> e \<in> KeyError ` {''mean-character-length'', ''character-lengths'', ''kerning-pairs''}"
    by auto
next
  fix t assume "from_json load f = Inr t"
  then show "\<exists>d. load f = Inr (JObject d)
             \<and> d ''mean-character-length'' = Some (default_character_width t)
             \<and> d ''character-lengths'' = Some (char_to_width t)
             \<and> d ''kerning-pairs'' = Some (pair_to_kern t)"
    by (simp add: from_json_Inr_iff)
next
  fix d m c k
  assume "load f = Inr (JObject d)" "d ''mean-character-length'' = Some m"
    "d ''character-lengths'' = Some c" "d ''kerning-pairs'' = Some k"
  then show "from_json load f = Inr (init m c k)"
    by (simp add: from_json_def)
qed

text \<open>A stream is its own decoding here: a document with the three fields, one without
  the mean width, and a stream that is not JSON.\<close>

theorem from_json_fails_iff_witness:
  "from_json (\<lambda>s. s) (Inr example_document) = Inr example_instance
   \<and> (\<exists>e. from_json (\<lambda>s. s)
            (Inr (JObject [''character-lengths'' \<mapsto> JObject [''I'' \<mapsto> JNumber (5::int)],
                           ''kerning-pairs'' \<mapsto> JObject Map.empty])) = Inl e)
   \<and> (\<exists>e. from_json (\<lambda>s. s) (Inl JSONDecodeError :: error + int json) = Inl e)"
  using from_json_fails_iff [of "\<lambda>s. s" "Inr example_document"]
    from_json_fails_iff
      [of "\<lambda>s. s"
          "Inr (JObject [''character-lengths'' \<mapsto> JObject [''I'' \<mapsto> JNumber (5::int)],
                         ''kerning-pairs'' \<mapsto> JObject Map.empty])"]
    from_json_fails_iff [of "\<lambda>s. s" "Inl JSONDecodeError :: error + int json"]
  by simp

section \<open>Properties of \<^verbatim>\<open>default\<close>\<close>

lemma resource_names_distinct: "resource_name_xz \<noteq> resource_name_json"
  by (simp add: resource_name_xz_def resource_name_json_def)







text \<open>
  Claim C7. When the cache read through the class is empty, \<open>default\<close> takes the
  compressed resource when it is present: it opens that resource and no other, returns
  the table decoded from it, and the plain resource has no influence on the call. It
  takes the plain resource only when the compressed one is absent. When neither is
  present the call raises \<^verbatim>\<open>ValueError('could not load default-widths.json')\<close>, the error
  the specification calls \<^verbatim>\<open>ResourceMissingError\<close>, and stores no table.
\<close>

theorem default_resolution:
  assumes "class_getattr (default_cache p) cls = Inr None"
  shows "(\<forall>r. resource_files env resource_name_xz = Some r \<longrightarrow>
            opened (snd (default env cls p)) = opened p @ [resource_name_xz]
          \<and> (\<forall>f m. lzma_open env r = Inr f \<longrightarrow> from_json (json_load env) f = Inr m \<longrightarrow>
                 fst (default env cls p) = Inr m)
          \<and> (\<forall>x. default (env\<lparr>resource_files := (resource_files env)(resource_name_json := x)\<rparr>)
                     cls p
                 = default env cls p))
       \<and> (\<forall>r. resource_files env resource_name_xz = None \<longrightarrow>
            resource_files env resource_name_json = Some r \<longrightarrow>
            opened (snd (default env cls p)) = opened p @ [resource_name_json]
          \<and> (\<forall>f m. open_utf8 env r = Inr f \<longrightarrow> from_json (json_load env) f = Inr m \<longrightarrow>
                 fst (default env cls p) = Inr m))
       \<and> (resource_files env resource_name_xz = None \<longrightarrow>
            resource_files env resource_name_json = None \<longrightarrow>
            default env cls p = (Inl (ValueError ''could not load default-widths.json''), p))"
  using assms resource_names_distinct
  by (auto simp add: default_def Let_def split: option.splits sum.splits)

text \<open>Three packages, each from the initial process and through the class itself: both
  resources bundled (the plain one not even JSON), only the plain one, and none.\<close>

theorem default_resolution_witness:
  "fst (default (example_package [resource_name_xz \<mapsto> Inr example_document,
                                   resource_name_json \<mapsto> Inl JSONDecodeError])
          base_class initial_process) = Inr example_instance
   \<and> opened (snd (default (example_package [resource_name_xz \<mapsto> Inr example_document,
                                             resource_name_json \<mapsto> Inl JSONDecodeError])
                    base_class initial_process)) = [resource_name_xz]
   \<and> fst (default (example_package [resource_name_json \<mapsto> Inr example_document])
            base_class initial_process) = Inr example_instance
   \<and> opened (snd (default (example_package [resource_name_json \<mapsto> Inr example_document])
                    base_class initial_process)) = [resource_name_json]
   \<and> default (example_package Map.empty) base_class initial_process
       = (Inl (ValueError ''could not load default-widths.json''), initial_process)"
  using default_resolution
      [of initial_process base_class
          "example_package [resource_name_xz \<mapsto> Inr example_document,
                            resource_name_json \<mapsto> Inl JSONDecodeError]"]
    default_resolution
      [of initial_process base_class
          "example_package [resource_name_json \<mapsto> Inr example_document]"]
    default_resolution [of initial_process base_class "example_package Map.empty"]
  by (simp add: initial_process_def base_class_def default_def from_json_def Let_def
        resource_name_xz_def resource_name_json_def)




text \<open>
  Claim C9. When the cache read through the class is empty and neither resource is
  bundled, \<open>default\<close> raises and leaves the process state, the cache with it, unchanged:
  the cache is still \<open>None\<close>, and a later call behaves as a first call would,
  attempting the construction again.
\<close>

theorem default_missing_keeps_cache:
  assumes "class_getattr (default_cache p) cls = Inr None"
    and "resource_files env resource_name_xz = None"
    and "resource_files env resource_name_json = None"
  shows "default env cls p = (Inl (ValueError ''could not load default-widths.json''), p)
       \<and> class_getattr (default_cache (snd (default env cls p))) cls = Inr None
       \<and> (\<forall>env' cls'. default env' cls' (snd (default env cls p)) = default env' cls' p)"
  using assms by (simp add: default_def)

text \<open>A call in a package without resources fails; a later call, once the plain resource
  is there, constructs the table.\<close>

theorem default_missing_keeps_cache_witness:
  "default (example_package Map.empty) base_class initial_process
     = (Inl (ValueError ''could not load default-widths.json''), initial_process)
   \<and> class_getattr
       (default_cache (snd (default (example_package Map.empty) base_class initial_process)))
       base_class = Inr None
   \<and> fst (default (example_package [resource_name_json \<mapsto> Inr example_document]) base_class
            (snd (default (example_package Map.empty) base_class initial_process)))
       = Inr example_instance"
  using default_missing_keeps_cache [of initial_process base_class "example_package Map.empty"]
  by (simp add: initial_process_def base_class_def default_def from_json_def Let_def
        resource_name_xz_def resource_name_json_def)

end
